theory Spec2Isabelle
  imports Main
begin

section \<open>JavaScript values as the upload handler sees them\<close>

text \<open>
  The backend (\<^verbatim>\<open>src/backend/server.js\<close>) reads the cells of the rows that the CSV
  parser hands over. With \<^verbatim>\<open>dynamicTyping: true\<close> a cell is a number, a boolean, a
  string or \<^verbatim>\<open>null\<close>; a column that the file does not have reads as
  \<^verbatim>\<open>undefined\<close>. (A cell that holds a full ISO date-time with its zone is handed
  over as a Date object; such cells are not covered here.)

  Numbers are kept as the decimal they denote: \<open>Dec m e\<close> is \<open>m * 10 ^ e\<close>, in
  normal form (\<open>m\<close> does not end in the digit 0, and zero is \<open>Dec 0 0\<close>). This is
  the number a double holds, and the text \<^verbatim>\<open>String(x)\<close> prints for it, as long as the
  decimal has at most 15 significant digits and lies in the range of normal doubles;
  rounding of longer decimals is not modelled. Negative zero is not told from zero: the
  handler only tests it for truth and prints it, and both zeros are false and print as 0.

  Strings are lists of 8-bit characters: the code units below 256, on which
  \<^verbatim>\<open>btoa\<close> is defined.
\<close>

datatype jsnum = NaN | Inf bool | Dec int int

datatype jsval = Undefined | Null | Bool bool | Num jsnum | Str string

function norm_dec :: "int \<Rightarrow> int \<Rightarrow> jsnum" where
  "norm_dec m e =
     (if m = 0 then Dec 0 0
      else if m mod 10 = 0 then norm_dec (m div 10) (e + 1)
      else Dec m e)"
  by pat_completeness auto
termination
  by (relation "measure (\<lambda>(m, e). nat \<bar>m\<bar>)") auto

text \<open>ToBoolean: what \<^verbatim>\<open>a || b\<close> and \<^verbatim>\<open>c ? x : y\<close> test.\<close>

fun truthy :: "jsval \<Rightarrow> bool" where
  "truthy Undefined = False"
| "truthy Null = False"
| "truthy (Bool b) = b"
| "truthy (Num NaN) = False"
| "truthy (Num (Inf s)) = True"
| "truthy (Num (Dec m e)) = (m \<noteq> 0)"
| "truthy (Str s) = (s \<noteq> [])"

text \<open>\<^verbatim>\<open>a || b\<close>: the left operand when it is true, the right one otherwise.\<close>

definition js_or :: "jsval \<Rightarrow> jsval \<Rightarrow> jsval" where
  "js_or a b = (if truthy a then a else b)"

subsection \<open>Number to text\<close>

definition digit_char :: "nat \<Rightarrow> char" where
  "digit_char d = ''0123456789'' ! (d mod 10)"

function digits_acc :: "nat \<Rightarrow> string \<Rightarrow> string" where
  "digits_acc n acc =
     (if n < 10 then digit_char n # acc
      else digits_acc (n div 10) (digit_char (n mod 10) # acc))"
  by pat_completeness auto
termination
  by (relation "measure (\<lambda>(n, acc). n)") auto

definition digits :: "nat \<Rightarrow> string" where
  "digits n = digits_acc n []"

text \<open>
  Number::toString of ECMAScript for a finite non-zero number with decimal digits
  \<open>ds\<close> (\<open>k\<close> of them) and the decimal point after the \<open>n\<close>-th digit.
\<close>

definition exponent_text :: "int \<Rightarrow> string" where
  "exponent_text x = (if x < 0 then ''-'' else ''+'') @ digits (nat \<bar>x\<bar>)"

definition unsigned_text :: "string \<Rightarrow> int \<Rightarrow> string" where
  "unsigned_text ds e =
     (let k = int (length ds); n = k + e in
      if k \<le> n \<and> n \<le> 21 then ds @ replicate (nat (n - k)) CHR ''0''
      else if 0 < n \<and> n \<le> 21 then take (nat n) ds @ ''.'' @ drop (nat n) ds
      else if -6 < n \<and> n \<le> 0 then ''0.'' @ replicate (nat (- n)) CHR ''0'' @ ds
      else if k = 1 then ds @ ''e'' @ exponent_text (n - 1)
      else take 1 ds @ ''.'' @ drop 1 ds @ ''e'' @ exponent_text (n - 1))"

fun number_text :: "jsnum \<Rightarrow> string" where
  "number_text NaN = ''NaN''"
| "number_text (Inf neg) = (if neg then ''-Infinity'' else ''Infinity'')"
| "number_text (Dec m e) =
     (if m = 0 then ''0''
      else (if m < 0 then ''-'' else []) @ unsigned_text (digits (nat \<bar>m\<bar>)) e)"

text \<open>ToString, applied by \<^verbatim>\<open>parseFloat\<close> to its argument.\<close>

fun to_string :: "jsval \<Rightarrow> string" where
  "to_string Undefined = ''undefined''"
| "to_string Null = ''null''"
| "to_string (Bool b) = (if b then ''true'' else ''false'')"
| "to_string (Num n) = number_text n"
| "to_string (Str s) = s"

subsection \<open>\<^verbatim>\<open>parseFloat\<close> and \<^verbatim>\<open>isNaN\<close>\<close>

definition is_digit :: "char \<Rightarrow> bool" where
  "is_digit c = (c \<in> set ''0123456789'')"

definition digit_val :: "char \<Rightarrow> nat" where
  "digit_val c = of_char c - 48"

definition nat_of_digits :: "string \<Rightarrow> nat" where
  "nat_of_digits ds = foldl (\<lambda>a c. 10 * a + digit_val c) 0 ds"

text \<open>
  The white space \<^verbatim>\<open>parseFloat\<close> skips at the start: tab, line feed, vertical tab,
  form feed, carriage return, space and no-break space (the ones below 256).
\<close>

definition is_space :: "char \<Rightarrow> bool" where
  "is_space c = (of_char c \<in> {9, 10, 11, 12, 13, 32, 160 :: nat})"

text \<open>
  The exponent part counts only when a digit follows \<^verbatim>\<open>e\<close> and its sign;
  otherwise the literal ends before the \<^verbatim>\<open>e\<close>.
\<close>

definition exponent_of :: "string \<Rightarrow> int" where
  "exponent_of s =
     (case s of
        c # r \<Rightarrow>
          (if c = CHR ''e'' \<or> c = CHR ''E'' then
             (case r of
                d # r' \<Rightarrow>
                  (if d = CHR ''-'' then - int (nat_of_digits (takeWhile is_digit r'))
                   else if d = CHR ''+'' then int (nat_of_digits (takeWhile is_digit r'))
                   else int (nat_of_digits (takeWhile is_digit r)))
              | [] \<Rightarrow> 0)
           else 0)
      | [] \<Rightarrow> 0)"

definition unsigned_literal :: "bool \<Rightarrow> string \<Rightarrow> jsnum" where
  "unsigned_literal neg s =
     (if take 8 s = ''Infinity'' then Inf neg
      else
        let ip = takeWhile is_digit s;
            r1 = dropWhile is_digit s;
            fp = (case r1 of c # r \<Rightarrow> if c = CHR ''.'' then takeWhile is_digit r else []
                  | [] \<Rightarrow> []);
            r2 = (case r1 of c # r \<Rightarrow> if c = CHR ''.'' then dropWhile is_digit r else r1
                  | [] \<Rightarrow> [])
        in if ip = [] \<and> fp = [] then NaN
           else norm_dec ((if neg then -1 else 1) * int (nat_of_digits (ip @ fp)))
                  (exponent_of r2 - int (length fp)))"

definition parse_float_text :: "string \<Rightarrow> jsnum" where
  "parse_float_text s =
     (case dropWhile is_space s of
        [] \<Rightarrow> NaN
      | c # r \<Rightarrow>
          if c = CHR ''-'' then unsigned_literal True r
          else if c = CHR ''+'' then unsigned_literal False r
          else unsigned_literal False (c # r))"

definition parseFloat :: "jsval \<Rightarrow> jsnum" where
  "parseFloat v = parse_float_text (to_string v)"

definition isNaN :: "jsnum \<Rightarrow> bool" where
  "isNaN n = (n = NaN)"

subsection \<open>\<^verbatim>\<open>JSON.stringify\<close> and \<^verbatim>\<open>btoa\<close>\<close>

definition hex_char :: "nat \<Rightarrow> char" where
  "hex_char d = ''0123456789abcdef'' ! (d mod 16)"

text \<open>
  QuoteJSONString, one code unit at a time: the short escapes, \<^verbatim>\<open>\u00XX\<close> for the
  other control characters, the character itself otherwise.
\<close>

definition json_escape :: "char \<Rightarrow> string" where
  "json_escape c =
     (let n = (of_char c :: nat) in
      if n = 8 then [CHR 0x5C, CHR ''b'']
      else if n = 9 then [CHR 0x5C, CHR ''t'']
      else if n = 10 then [CHR 0x5C, CHR ''n'']
      else if n = 12 then [CHR 0x5C, CHR ''f'']
      else if n = 13 then [CHR 0x5C, CHR ''r'']
      else if n = 34 then [CHR 0x5C, CHR 0x22]
      else if n = 92 then [CHR 0x5C, CHR 0x5C]
      else if n < 32 then [CHR 0x5C, CHR ''u'', CHR ''0'', CHR ''0'', hex_char (n div 16), hex_char n]
      else [c])"

definition json_quote :: "string \<Rightarrow> string" where
  "json_quote s = CHR 0x22 # concat (map json_escape s) @ [CHR 0x22]"

text \<open>
  The JSON text of a property value; \<open>None\<close> for \<^verbatim>\<open>undefined\<close>, whose property
  \<^verbatim>\<open>JSON.stringify\<close> leaves out. A number that is not finite prints as
  \<^verbatim>\<open>null\<close>.
\<close>

fun json_value :: "jsval \<Rightarrow> string option" where
  "json_value Undefined = None"
| "json_value Null = Some ''null''"
| "json_value (Bool b) = Some (if b then ''true'' else ''false'')"
| "json_value (Num NaN) = Some ''null''"
| "json_value (Num (Inf s)) = Some ''null''"
| "json_value (Num (Dec m e)) = Some (number_text (Dec m e))"
| "json_value (Str s) = Some (json_quote s)"

fun json_members :: "(string \<times> jsval) list \<Rightarrow> string list" where
  "json_members [] = []"
| "json_members ((k, v) # kvs) =
     (case json_value v of
        None \<Rightarrow> json_members kvs
      | Some t \<Rightarrow> (json_quote k @ '':'' @ t) # json_members kvs)"

fun join_commas :: "string list \<Rightarrow> string" where
  "join_commas [] = []"
| "join_commas [x] = x"
| "join_commas (x # y # zs) = x @ '','' @ join_commas (y # zs)"

definition JSON_stringify :: "(string \<times> jsval) list \<Rightarrow> string" where
  "JSON_stringify obj = ''{'' @ join_commas (json_members obj) @ ''}''"

definition b64_char :: "nat \<Rightarrow> char" where
  "b64_char n =
     ''ABCDEFGHIJKLMNOPQRSTUVWXYZabcdefghijklmnopqrstuvwxyz0123456789+/'' ! (n mod 64)"

fun base64 :: "nat list \<Rightarrow> string" where
  "base64 [] = []"
| "base64 [a] = [b64_char (a div 4), b64_char ((a mod 4) * 16), CHR ''='', CHR ''='']"
| "base64 [a, b] =
     [b64_char (a div 4), b64_char ((a mod 4) * 16 + b div 16),
      b64_char ((b mod 16) * 4), CHR ''='']"
| "base64 (a # b # c # r) =
     [b64_char (a div 4), b64_char ((a mod 4) * 16 + b div 16),
      b64_char ((b mod 16) * 4 + c div 64), b64_char (c mod 64)] @ base64 r"

definition btoa :: "string \<Rightarrow> string" where
  "btoa s = base64 (map of_char s)"

section \<open>The identity hash\<close>

text \<open>
  \<^verbatim>\<open>createTransactionHash\<close> reads four properties of the object it is given and
  nothing else. The object of the call site carries a number as its amount; the
  record scheme stands for whatever else the object holds.
\<close>

record transaction =
  date :: jsval
  merchant :: jsval
  amount :: jsnum
  account :: jsval

definition createTransactionHash :: "'a transaction_scheme \<Rightarrow> string" where
  "createTransactionHash transaction =
     btoa (JSON_stringify
       [(''date'', date transaction),
        (''merchant'', merchant transaction),
        (''amount'', Num (amount transaction)),
        (''account'', account transaction)])"

section \<open>Dates\<close>

text \<open>
  \<^verbatim>\<open>new Date(v).toISOString().split('T')[0]\<close>: the time value of \<open>v\<close> in
  milliseconds since 1970-01-01 UTC, printed as the UTC calendar date. The days of the
  proleptic Gregorian calendar are counted in eras of 400 years that begin on 1 March.
\<close>

definition days_from_civil :: "int \<Rightarrow> int \<Rightarrow> int \<Rightarrow> int" where
  "days_from_civil y m d =
     (let y' = (if m \<le> 2 then y - 1 else y);
          era = y' div 400;
          yoe = y' - era * 400;
          doy = (153 * (if m > 2 then m - 3 else m + 9) + 2) div 5 + d - 1;
          doe = yoe * 365 + yoe div 4 - yoe div 100 + doy
      in era * 146097 + doe - 719468)"

definition civil_from_days :: "int \<Rightarrow> int \<times> int \<times> int" where
  "civil_from_days z0 =
     (let z = z0 + 719468;
          era = z div 146097;
          doe = z - era * 146097;
          yoe = (doe - doe div 1460 + doe div 36524 - doe div 146096) div 365;
          doy = doe - (365 * yoe + yoe div 4 - yoe div 100);
          mp = (5 * doy + 2) div 153;
          d = doy - (153 * mp + 2) div 5 + 1;
          m = (if mp < 10 then mp + 3 else mp - 9);
          y = yoe + era * 400
      in (if m \<le> 2 then y + 1 else y, m, d))"

definition ms_per_day :: int where
  "ms_per_day = 86400000"

definition pad :: "nat \<Rightarrow> string \<Rightarrow> string" where
  "pad k s = replicate (k - length s) CHR ''0'' @ s"

text \<open>
  The year of \<^verbatim>\<open>toISOString\<close>: four digits from 0 to 9999, a sign and six digits
  otherwise.
\<close>

definition year_text :: "int \<Rightarrow> string" where
  "year_text y =
     (if 0 \<le> y \<and> y \<le> 9999 then pad 4 (digits (nat y))
      else (if y < 0 then ''-'' else ''+'') @ pad 6 (digits (nat \<bar>y\<bar>)))"

definition iso_date_text :: "int \<Rightarrow> string" where
  "iso_date_text t =
     (case civil_from_days (t div ms_per_day) of
        (y, m, d) \<Rightarrow>
          year_text y @ ''-'' @ pad 2 (digits (nat m)) @ ''-'' @ pad 2 (digits (nat d)))"

text \<open>TimeClip: a time value beyond 8.64e15 ms is not a date.\<close>

definition time_clip :: "int \<Rightarrow> int option" where
  "time_clip t = (if \<bar>t\<bar> \<le> 8640000000000000 then Some t else None)"

text \<open>
  For a number the bound is tested before the fraction is cut off: whether
  \<open>m * 10 ^ e\<close> is beyond 8.64e15, and its integral part, towards zero.
\<close>

definition beyond_dates :: "int \<Rightarrow> int \<Rightarrow> bool" where
  "beyond_dates m e =
     (if 0 \<le> e then \<bar>m\<bar> * 10 ^ nat e > 8640000000000000
      else \<bar>m\<bar> > 8640000000000000 * 10 ^ nat (- e))"

definition trunc_dec :: "int \<Rightarrow> int \<Rightarrow> int" where
  "trunc_dec m e =
     (if 0 \<le> e then m * 10 ^ nat e
      else if 0 \<le> m then m div 10 ^ nat (- e)
      else - ((- m) div 10 ^ nat (- e)))"

definition leap_year :: "int \<Rightarrow> bool" where
  "leap_year y = (y mod 4 = 0 \<and> (y mod 100 \<noteq> 0 \<or> y mod 400 = 0))"

definition days_in_month :: "int \<Rightarrow> int \<Rightarrow> int" where
  "days_in_month y m =
     (if m = 2 then (if leap_year y then 29 else 28)
      else if m = 4 \<or> m = 6 \<or> m = 9 \<or> m = 11 then 30
      else 31)"

text \<open>
  The date-only form \<^verbatim>\<open>YYYY-MM-DD\<close> of the ECMAScript date-time string format, for a
  day that exists: midnight UTC of that day.
\<close>

definition parse_iso_date :: "string \<Rightarrow> int option" where
  "parse_iso_date s =
     (case s of
        [y1, y2, y3, y4, h1, m1, m2, h2, d1, d2] \<Rightarrow>
          (if list_all is_digit [y1, y2, y3, y4, m1, m2, d1, d2]
              \<and> h1 = CHR ''-'' \<and> h2 = CHR ''-'' then
             (let y = int (nat_of_digits [y1, y2, y3, y4]);
                  m = int (nat_of_digits [m1, m2]);
                  d = int (nat_of_digits [d1, d2])
              in if 1 \<le> m \<and> m \<le> 12 \<and> 1 \<le> d \<and> d \<le> days_in_month y m
                 then Some (days_from_civil y m d * ms_per_day)
                 else None)
           else None)
      | _ \<Rightarrow> None)"

text \<open>
  \<^verbatim>\<open>Date.parse\<close>. ECMAScript fixes the result for the date-time string format and
  leaves every other string to the engine; the engine's reading of the strings that
  \<open>parse_iso_date\<close> does not take is the parameter \<open>engine\<close> (\<open>None\<close> for an
  invalid date).
\<close>

type_synonym date_engine = "string \<Rightarrow> int option"

definition Date_parse :: "date_engine \<Rightarrow> string \<Rightarrow> int option" where
  "Date_parse engine s =
     (case parse_iso_date s of
        Some t \<Rightarrow> Some t
      | None \<Rightarrow> (case engine s of Some t \<Rightarrow> time_clip t | None \<Rightarrow> None))"

text \<open>
  The time value of \<^verbatim>\<open>new Date(v)\<close>: a string is parsed, any other value is
  converted to a number of milliseconds.
\<close>

fun new_Date :: "date_engine \<Rightarrow> jsval \<Rightarrow> int option" where
  "new_Date engine (Str s) = Date_parse engine s"
| "new_Date engine Undefined = None"
| "new_Date engine Null = Some 0"
| "new_Date engine (Bool b) = Some (if b then 1 else 0)"
| "new_Date engine (Num NaN) = None"
| "new_Date engine (Num (Inf s)) = None"
| "new_Date engine (Num (Dec m e)) =
     (if beyond_dates m e then None else Some (trunc_dec m e))"

text \<open>
  An engine for the worked examples: it reads \<^verbatim>\<open>MM/DD/YYYY\<close> as midnight local time, as
  Node.js does, in a zone \<open>tz\<close> minutes east of UTC, and no other string.
\<close>

definition slash_date_engine :: "int \<Rightarrow> date_engine" where
  "slash_date_engine tz s =
     (case s of
        [m1, m2, h1, d1, d2, h2, y1, y2, y3, y4] \<Rightarrow>
          (if list_all is_digit [y1, y2, y3, y4, m1, m2, d1, d2]
              \<and> h1 = CHR ''/'' \<and> h2 = CHR ''/'' then
             (let y = int (nat_of_digits [y1, y2, y3, y4]);
                  m = int (nat_of_digits [m1, m2]);
                  d = int (nat_of_digits [d1, d2])
              in if 1 \<le> m \<and> m \<le> 12 \<and> 1 \<le> d \<and> d \<le> days_in_month y m
                 then Some (days_from_civil y m d * ms_per_day - tz * 60000)
                 else None)
           else None)
      | _ \<Rightarrow> None)"

section \<open>Rows and normalized records\<close>

text \<open>
  A parsed row is an object keyed by the column names of the header line; reading a
  column that the row does not have gives \<^verbatim>\<open>undefined\<close>.
\<close>

type_synonym row = "(string \<times> jsval) list"

definition field :: "row \<Rightarrow> string \<Rightarrow> jsval" where
  "field row name = (case map_of row name of Some v \<Rightarrow> v | None \<Rightarrow> Undefined)"

text \<open>
  What the handler can throw inside its \<^verbatim>\<open>try\<close> block: the RangeError of
  \<^verbatim>\<open>toISOString\<close> on an invalid date, the TypeError of calling \<^verbatim>\<open>map\<close> on the
  \<^verbatim>\<open>null\<close> data of a failed query, and its own
  \<^verbatim>\<open>Error('Database insertion failed.')\<close>.
\<close>

datatype exn = RangeError | TypeError | Error string

record normalized = transaction +
  status :: string
  hash :: string

text \<open>
  The object built for one row (server.js, lines 157 to 169). The date is evaluated
  first, so an invalid date throws before anything else of the row is computed. The hash
  is taken over \<^verbatim>\<open>row.Date\<close> as read, not over the normalized date.
\<close>

definition normalize_row :: "date_engine \<Rightarrow> row \<Rightarrow> exn + normalized" where
  "normalize_row engine row =
     (case new_Date engine (field row ''Date'') of
        None \<Rightarrow> Inl RangeError
      | Some t \<Rightarrow>
          Inr \<lparr>date = Str (iso_date_text t),
               merchant = js_or (field row ''Description'') (field row ''Merchant''),
               amount = parseFloat (js_or (field row ''Amount'') (field row ''Debit'')),
               account = js_or (field row ''Account'') (Str ''Default''),
               status = ''Review Required'',
               hash = createTransactionHash
                 \<lparr>date = field row ''Date'',
                  merchant = js_or (field row ''Description'') (field row ''Merchant''),
                  amount = parseFloat (js_or (field row ''Amount'') (field row ''Debit'')),
                  account = js_or (field row ''Account'') (Str ''Default'')\<rparr>\<rparr>)"

text \<open>\<^verbatim>\<open>Array.prototype.map\<close> with a callback that may throw: the first throw ends it.\<close>

fun map_rows :: "(row \<Rightarrow> exn + normalized) \<Rightarrow> row list \<Rightarrow> exn + normalized list" where
  "map_rows f [] = Inr []"
| "map_rows f (r # rs) =
     (case f r of
        Inl e \<Rightarrow> Inl e
      | Inr t \<Rightarrow> (case map_rows f rs of Inl e \<Rightarrow> Inl e | Inr ts \<Rightarrow> Inr (t # ts)))"

definition normalizedData :: "date_engine \<Rightarrow> row list \<Rightarrow> exn + normalized list" where
  "normalizedData engine rows =
     (case map_rows (normalize_row engine) rows of
        Inl e \<Rightarrow> Inl e
      | Inr ts \<Rightarrow> Inr (filter (\<lambda>t. \<not> isNaN (amount t)) ts))"

section \<open>The storage collaborator\<close>

text \<open>
  The \<^verbatim>\<open>transactions\<close> table behind the Supabase client: its rows, the next identifier
  it hands out, whether it answers a query, an insert or an update with an error, and
  the requests it has received. A row keeps the record it was sent, with the
  identifier the table gave it and its cost center, \<^verbatim>\<open>null\<close> until one is set. A
  request that fails changes no row.
\<close>

record stored = normalized +
  ident :: nat
  costCenter :: jsval

datatype request =
    Select_in "string list"
  | Insert "normalized list"
  | Update nat "jsval" string

record supabase =
  table :: "stored list"
  next_id :: nat
  select_error :: bool
  insert_error :: bool
  update_error :: bool
  requests :: "request list"

definition store :: "nat \<Rightarrow> normalized \<Rightarrow> stored" where
  "store i t =
     \<lparr>date = date t, merchant = merchant t, amount = amount t, account = account t,
      status = status t, hash = hash t, ident = i, costCenter = Null\<rparr>"

text \<open>\<^verbatim>\<open>.select('hash').in('hash', hs)\<close>: \<open>None\<close> is the \<^verbatim>\<open>null\<close> data of an error.\<close>

definition select_hash_in :: "string list \<Rightarrow> supabase \<Rightarrow> string list option \<times> supabase" where
  "select_hash_in hs db =
     (if select_error db then None else Some (filter (\<lambda>h. h \<in> set hs) (map hash (table db))),
      db\<lparr>requests := requests db @ [Select_in hs]\<rparr>)"

text \<open>\<^verbatim>\<open>.insert(ts)\<close>: the boolean is the \<^verbatim>\<open>error\<close> of the answer.\<close>

definition insert_rows :: "normalized list \<Rightarrow> supabase \<Rightarrow> bool \<times> supabase" where
  "insert_rows ts db =
     (if insert_error db then (True, db\<lparr>requests := requests db @ [Insert ts]\<rparr>)
      else (False,
            db\<lparr>table := table db @ map2 store [next_id db ..< next_id db + length ts] ts,
               next_id := next_id db + length ts,
               requests := requests db @ [Insert ts]\<rparr>))"



section \<open>The endpoints\<close>

text \<open>
  \<^verbatim>\<open>POST /api/upload\<close> (server.js, lines 143 to 196). The file is given as the rows
  parsed from it, \<open>None\<close> when the request has no file. The answers are
  400 \<^verbatim>\<open>No file uploaded.\<close>, 200 with the number of inserted records in its message, and
  500 with the message of whatever was thrown.
\<close>

datatype response = No_file_uploaded | Saved nat | Upload_failed exn

fun status_code :: "response \<Rightarrow> nat" where
  "status_code No_file_uploaded = 400"
| "status_code (Saved n) = 200"
| "status_code (Upload_failed e) = 500"

definition newTransactions :: "string list \<Rightarrow> normalized list \<Rightarrow> normalized list" where
  "newTransactions existingHashes nd =
     filter (\<lambda>t. hash t \<notin> set existingHashes) nd"

definition upload :: "date_engine \<Rightarrow> row list option \<Rightarrow> supabase \<Rightarrow> response \<times> supabase" where
  "upload engine file db =
     (case file of
        None \<Rightarrow> (No_file_uploaded, db)
      | Some rows \<Rightarrow>
          (case normalizedData engine rows of
             Inl e \<Rightarrow> (Upload_failed e, db)
           | Inr nd \<Rightarrow>
               (case select_hash_in (map hash nd) db of
                  (None, db1) \<Rightarrow> (Upload_failed TypeError, db1)
                | (Some existingHashes, db1) \<Rightarrow>
                    (let new = newTransactions existingHashes nd in
                     if length new > 0 then
                       (case insert_rows new db1 of
                          (True, db2) \<Rightarrow>
                            (Upload_failed (Error ''Database insertion failed.''), db2)
                        | (False, db2) \<Rightarrow> (Saved (length new), db2))
                     else (Saved (length new), db1)))))"



text \<open>The requests a handler has sent to the table, and the inserts among them.\<close>

definition issued :: "supabase \<Rightarrow> supabase \<Rightarrow> request list" where
  "issued db db' = drop (length (requests db)) (requests db')"

fun is_insert :: "request \<Rightarrow> bool" where
  "is_insert (Insert ts) = True"
| "is_insert (Select_in hs) = False"
| "is_insert (Update i cc st) = False"

section \<open>Worked inputs\<close>

text \<open>
  The two rows of the specification's example, as the parser hands them over (the cell
  \<^verbatim>\<open>-4.50\<close> is the number -4.5 under dynamic typing), and a table with no rows that
  answers every request.
\<close>

definition coffee_iso :: row where
  "coffee_iso =
     [(''Date'', Str ''2024-01-05''), (''Description'', Str ''Coffee Shop''),
      (''Amount'', Num (Dec (- 45) (- 1))), (''Account'', Str ''Checking'')]"

definition coffee_slash :: row where
  "coffee_slash =
     [(''Date'', Str ''01/05/2024''), (''Description'', Str ''Coffee Shop''),
      (''Amount'', Num (Dec (- 45) (- 1))), (''Account'', Str ''Checking'')]"

definition empty_db :: supabase where
  "empty_db =
     \<lparr>table = [], next_id = 1, select_error = False, insert_error = False,
      update_error = False, requests = []\<rparr>"

text \<open>
  The identity hashes of the two rows: \<^verbatim>\<open>btoa\<close> of the JSON text with the date as the
  file gives it.
\<close>

definition coffee_iso_hash :: string where
  "coffee_iso_hash =
     ''eyJkYXRlIjoiMjAyNC0wMS0wNSIsIm1lcmNoYW50IjoiQ29mZmVlIFNob3AiLCJhbW91bnQiOi00LjUsImFjY291bnQiOiJDaGVja2luZyJ9''"

definition coffee_slash_hash :: string where
  "coffee_slash_hash =
     ''eyJkYXRlIjoiMDEvMDUvMjAyNCIsIm1lcmNoYW50IjoiQ29mZmVlIFNob3AiLCJhbW91bnQiOi00LjUsImFjY291bnQiOiJDaGVja2luZyJ9''"

text \<open>
  Rows with one cell out of the ordinary each: a date that is no date, an amount with a
  thousands separator, an amount that is no number, a blank merchant, no account
  column, and an amount of zero with no debit column.
\<close>

definition bad_date_row :: row where
  "bad_date_row =
     [(''Date'', Str ''not a date''), (''Description'', Str ''Bakery''),
      (''Amount'', Num (Dec (- 3) 0)), (''Account'', Str ''Checking'')]"

definition undated_row :: row where
  "undated_row =
     [(''Description'', Str ''Bakery''), (''Amount'', Num (Dec (- 3) 0)),
      (''Account'', Str ''Checking'')]"




definition no_account_row :: row where
  "no_account_row =
     [(''Date'', Str ''2024-01-05''), (''Description'', Str ''Bakery''),
      (''Amount'', Num (Dec (- 3) 0))]"



text \<open>Ten valid rows with the amounts -1.5 to -10.5, and a table whose inserts fail.\<close>

definition ten_rows :: "row list" where
  "ten_rows =
     map (\<lambda>n. [(''Date'', Str ''2024-01-05''), (''Description'', Str ''Coffee Shop''),
               (''Amount'', Num (Dec (- (10 * int n + 5)) (- 1))),
               (''Account'', Str ''Checking'')])
       [1 ..< 11]"

definition failing_insert_db :: supabase where
  "failing_insert_db = empty_db\<lparr>insert_error := True\<rparr>"

text \<open>
  The records the upload builds for the two rows, the first of them as a stored row
  after a cost center was set, and a table that already holds the second.
\<close>

definition coffee_record :: normalized where
  "coffee_record =
     \<lparr>date = Str ''2024-01-05'', merchant = Str ''Coffee Shop'', amount = Dec (- 45) (- 1),
      account = Str ''Checking'', status = ''Review Required'', hash = coffee_iso_hash\<rparr>"

definition coffee_slash_record :: normalized where
  "coffee_slash_record =
     \<lparr>date = Str ''2024-01-05'', merchant = Str ''Coffee Shop'', amount = Dec (- 45) (- 1),
      account = Str ''Checking'', status = ''Review Required'', hash = coffee_slash_hash\<rparr>"

definition coffee_stored :: stored where
  "coffee_stored =
     \<lparr>date = Str ''2024-01-05'', merchant = Str ''Coffee Shop'', amount = Dec (- 45) (- 1),
      account = Str ''Checking'', status = ''Processed'', hash = coffee_iso_hash, ident = 7,
      costCenter = Str ''Food''\<rparr>"

definition slash_stored_db :: supabase where
  "slash_stored_db = empty_db\<lparr>table := [store 1 coffee_slash_record], next_id := 2\<rparr>"

section \<open>Auxiliary facts\<close>

subsection \<open>One row\<close>

lemma normalize_row_Inl:
  "normalize_row engine r = Inl e \<Longrightarrow> e = RangeError \<and> new_Date engine (field r ''Date'') = None"
  by (auto simp: normalize_row_def split: option.splits)

lemma normalize_row_invalid:
  "new_Date engine (field r ''Date'') = None \<Longrightarrow> normalize_row engine r = Inl RangeError"
  by (simp add: normalize_row_def)




subsection \<open>A batch of rows\<close>


lemma map_rows_invalid:
  "r \<in> set rows \<Longrightarrow> new_Date engine (field r ''Date'') = None \<Longrightarrow>
   map_rows (normalize_row engine) rows = Inl RangeError"
proof (induction rows)
  case Nil
  then show ?case by simp
next
  case (Cons x xs)
  show ?case
  proof (cases "normalize_row engine x")
    case (Inl e)
    then show ?thesis by (auto dest: normalize_row_Inl)
  next
    case (Inr t)
    with Cons.prems have "r \<in> set xs" by (auto simp: normalize_row_invalid)
    with Cons have "map_rows (normalize_row engine) xs = Inl RangeError" by simp
    with Inr show ?thesis by simp
  qed
qed








subsection \<open>The upload and the table\<close>


lemma newTransactions_stored:
  "newTransactions (filter (\<lambda>h. h \<in> hash ` set nd) (map hash (table db))) nd =
   filter (\<lambda>t. hash t \<notin> hash ` set (table db)) nd"
  unfolding newTransactions_def by (rule filter_cong) auto

lemma map2_store_hash_gen:
  "length ids = length ts \<Longrightarrow> map hash (map2 store ids ts) = map hash ts"
  by (induction ids ts rule: list_induct2) (simp_all add: store_def)

lemma map2_store_hash:
  "map hash (map2 store [n ..< n + length ts] ts) = map hash ts"
  by (rule map2_store_hash_gen) simp

lemma upload_success:
  assumes "normalizedData engine rows = Inr nd" and "\<not> select_error db" and "\<not> insert_error db"
  shows "upload engine (Some rows) db =
     (let new = filter (\<lambda>t. hash t \<notin> hash ` set (table db)) nd;
          db1 = db\<lparr>requests := requests db @ [Select_in (map hash nd)]\<rparr>
      in (Saved (length new),
          if new = [] then db1
          else db1\<lparr>table := table db @ map2 store [next_id db ..< next_id db + length new] new,
                  next_id := next_id db + length new,
                  requests := requests db @ [Select_in (map hash nd), Insert new]\<rparr>))"
  using assms
  by (simp add: upload_def select_hash_in_def insert_rows_def newTransactions_stored Let_def)





subsection \<open>Number literals\<close>





subsection \<open>The worked inputs, evaluated\<close>

lemma day_of_slash: "- 1440 < tz \<Longrightarrow> tz \<le> 0 \<Longrightarrow> (1704412800000 - tz * 60000) div 86400000 = (19727::int)"
  by arith

lemma slash_engine_coffee:
  "slash_date_engine tz ''01/05/2024'' = Some (1704412800000 - tz * 60000)"
  by (simp add: slash_date_engine_def is_digit_def nat_of_digits_def digit_val_def
      days_in_month_def days_from_civil_def ms_per_day_def Let_def)

lemma parse_iso_coffee: "parse_iso_date ''2024-01-05'' = Some 1704412800000"
  by code_simp

lemma parse_iso_slash: "parse_iso_date ''01/05/2024'' = None"
  by code_simp

lemma iso_date_text_day:
  "t div ms_per_day = k \<Longrightarrow> iso_date_text t = iso_date_text (k * ms_per_day)"
  by (simp add: iso_date_text_def ms_per_day_def)

lemma iso_date_text_coffee: "iso_date_text (19727 * ms_per_day) = ''2024-01-05''"
  by code_simp

lemma parseFloat_coffee: "parseFloat (Num (Dec (- 45) (- 1))) = Dec (- 45) (- 1)"
  by code_simp

lemma hash_coffee_iso:
  "createTransactionHash
     \<lparr>date = Str ''2024-01-05'', merchant = Str ''Coffee Shop'', amount = Dec (- 45) (- 1),
      account = Str ''Checking''\<rparr> = coffee_iso_hash"
  by code_simp

lemma hash_coffee_slash:
  "createTransactionHash
     \<lparr>date = Str ''01/05/2024'', merchant = Str ''Coffee Shop'', amount = Dec (- 45) (- 1),
      account = Str ''Checking''\<rparr> = coffee_slash_hash"
  by code_simp

lemma normalize_coffee_iso:
  "normalize_row engine coffee_iso =
     Inr coffee_record"
proof -
  have d: "new_Date engine (field coffee_iso ''Date'') = Some (19727 * ms_per_day)"
    by (simp add: field_def coffee_iso_def Date_parse_def parse_iso_coffee ms_per_day_def)
  show ?thesis
    unfolding normalize_row_def d
    by (simp add: field_def coffee_iso_def js_or_def parseFloat_coffee hash_coffee_iso
        iso_date_text_coffee coffee_record_def)
qed

lemma normalize_coffee_slash:
  assumes "- 1440 < tz" and "tz \<le> 0"
  shows "normalize_row (slash_date_engine tz) coffee_slash =
     Inr coffee_slash_record"
proof -
  from assms have clip: "time_clip (1704412800000 - tz * 60000) = Some (1704412800000 - tz * 60000)"
    by (simp add: time_clip_def)
  have d: "new_Date (slash_date_engine tz) (field coffee_slash ''Date'')
           = Some (1704412800000 - tz * 60000)"
    by (simp add: field_def coffee_slash_def Date_parse_def parse_iso_slash slash_engine_coffee clip)
  from day_of_slash [OF assms]
  have "(1704412800000 - tz * 60000) div ms_per_day = 19727"
    by (simp add: ms_per_day_def)
  from iso_date_text_day [OF this]
  have "iso_date_text (1704412800000 - tz * 60000) = ''2024-01-05''"
    by (simp only: iso_date_text_coffee)
  then show ?thesis
    unfolding normalize_row_def d
    by (simp add: field_def coffee_slash_def js_or_def parseFloat_coffee hash_coffee_slash
        coffee_slash_record_def)
qed

section \<open>Two date formats, one transaction (C1)\<close>

text \<open>
  C1, as amended. The two rows of the example, the same transaction dated
  \<^verbatim>\<open>2024-01-05\<close> and \<^verbatim>\<open>01/05/2024\<close>, get the same canonical date 2024-01-05 on a server
  whose zone is UTC or west of it (the second form is read as local midnight). Uploaded
  together into a table that holds neither of their hashes, both are inserted: the
  answer counts 2 new records, and nothing is counted as a duplicate.
\<close>

theorem coffee_rows_same_date_both_new:
  assumes "- 1440 < tz" and "tz \<le> 0"
    and "\<not> select_error db" and "\<not> insert_error db"
    and "coffee_iso_hash \<notin> hash ` set (table db)"
    and "coffee_slash_hash \<notin> hash ` set (table db)"
  shows "map_sum id (map date) (normalizedData (slash_date_engine tz) [coffee_iso, coffee_slash])
           = Inr [Str ''2024-01-05'', Str ''2024-01-05'']
       \<and> fst (upload (slash_date_engine tz) (Some [coffee_iso, coffee_slash]) db) = Saved 2"
proof -
  have nd: "normalizedData (slash_date_engine tz) [coffee_iso, coffee_slash]
            = Inr [coffee_record, coffee_slash_record]"
    by (simp add: normalizedData_def normalize_coffee_iso normalize_coffee_slash [OF assms(1,2)]
        isNaN_def coffee_record_def coffee_slash_record_def)
  from upload_success [OF nd assms(3,4)] assms(5,6)
  have "fst (upload (slash_date_engine tz) (Some [coffee_iso, coffee_slash]) db) = Saved 2"
    by (simp add: Let_def coffee_record_def coffee_slash_record_def)
  with nd show ?thesis
    by (simp add: coffee_record_def coffee_slash_record_def)
qed

theorem coffee_rows_same_date_both_new_witness:
  "map_sum id (map date) (normalizedData (slash_date_engine (- 300)) [coffee_iso, coffee_slash])
           = Inr [Str ''2024-01-05'', Str ''2024-01-05'']
   \<and> fst (upload (slash_date_engine (- 300)) (Some [coffee_iso, coffee_slash]) empty_db) = Saved 2"
  using coffee_rows_same_date_both_new [of "- 300" empty_db]
  by (simp add: empty_db_def)

text \<open>
  The claim as stated fails on the example itself: on a server in UTC and an empty
  table the upload answers 2 new records, and the two stored hashes differ, the hash
  being taken over the date text of the file.
\<close>

theorem two_date_formats_counterexample:
  "(case upload (slash_date_engine 0) (Some [coffee_iso, coffee_slash]) empty_db of
      (res, db) \<Rightarrow> res = Saved 2 \<and> map hash (table db) = [coffee_iso_hash, coffee_slash_hash])
   \<and> coffee_iso_hash \<noteq> coffee_slash_hash"
  by code_simp

section \<open>The same hash twice in one upload (C2)\<close>

text \<open>
  C2, as amended. A record of the batch is new exactly when its hash is not in the
  table: the answer counts the records of the batch whose hash the table does not
  hold, and every one of them is inserted, in order, a hash that occurs several
  times in the batch as often as it occurs. Duplicates are not counted.
\<close>

theorem upload_keeps_every_unstored:
  assumes "normalizedData engine rows = Inr nd" and "\<not> select_error db" and "\<not> insert_error db"
  shows "fst (upload engine (Some rows) db)
           = Saved (length (filter (\<lambda>t. hash t \<notin> hash ` set (table db)) nd))
       \<and> map hash (drop (length (table db)) (table (snd (upload engine (Some rows) db))))
           = filter (\<lambda>h. h \<notin> hash ` set (table db)) (map hash nd)"
  using map2_store_hash [of "next_id db" "filter (\<lambda>t. hash t \<notin> hash ` set (table db)) nd"]
  by (simp add: upload_success [OF assms] Let_def filter_map comp_def)

theorem upload_keeps_every_unstored_witness:
  "fst (upload (slash_date_engine 0) (Some [coffee_iso, coffee_slash, coffee_iso]) slash_stored_db)
     = Saved 2
   \<and> map hash (drop 1 (table (snd (upload (slash_date_engine 0)
         (Some [coffee_iso, coffee_slash, coffee_iso]) slash_stored_db))))
     = [coffee_iso_hash, coffee_iso_hash]"
proof -
  have nd: "normalizedData (slash_date_engine 0) [coffee_iso, coffee_slash, coffee_iso]
            = Inr [coffee_record, coffee_slash_record, coffee_record]"
    by (simp add: normalizedData_def normalize_coffee_iso normalize_coffee_slash isNaN_def
        coffee_record_def coffee_slash_record_def)
  have sel: "\<not> select_error slash_stored_db" and ins: "\<not> insert_error slash_stored_db"
    by (simp_all add: slash_stored_db_def empty_db_def)
  have differ: "coffee_iso_hash \<noteq> coffee_slash_hash"
    by (simp add: coffee_iso_hash_def coffee_slash_hash_def)
  from upload_keeps_every_unstored [OF nd sel ins] differ show ?thesis
    by (simp add: slash_stored_db_def empty_db_def store_def coffee_record_def
        coffee_slash_record_def)
qed

text \<open>
  The claim as stated fails: the same row twice in one upload into an empty table gives
  2 new records with the same hash.
\<close>

theorem intra_batch_counterexample:
  "(case upload (slash_date_engine 0) (Some [coffee_iso, coffee_iso]) empty_db of
      (res, db) \<Rightarrow> res = Saved 2 \<and> map hash (table db) = [coffee_iso_hash, coffee_iso_hash])"
  by code_simp

section \<open>A date that is no date (C3)\<close>

text \<open>
  C3, as amended. A row whose date is not a valid date makes the whole upload fail:
  the answer is the 500 of the RangeError, whatever the other rows are, no request
  reaches the table and no row is stored.
\<close>

theorem invalid_date_fails_upload:
  assumes "r \<in> set rows" and "new_Date engine (field r ''Date'') = None"
  shows "upload engine (Some rows) db = (Upload_failed RangeError, db)"
  using map_rows_invalid [OF assms]
  by (simp add: upload_def normalizedData_def)

theorem invalid_date_fails_upload_witness:
  "upload (slash_date_engine 0) (Some [coffee_iso, undated_row, coffee_slash]) empty_db
     = (Upload_failed RangeError, empty_db)"
proof -
  have "new_Date (slash_date_engine 0) (field undated_row ''Date'') = None"
    by (simp add: field_def undated_row_def)
  from invalid_date_fails_upload [of undated_row "[coffee_iso, undated_row, coffee_slash]", OF _ this]
  show ?thesis by simp
qed

text \<open>
  The claim as stated fails: a valid row followed by a row dated \<^verbatim>\<open>not a date\<close> is
  answered with 500, and the valid row is not stored.
\<close>

theorem invalid_date_counterexample:
  "(case upload (slash_date_engine 0) (Some [coffee_iso, bad_date_row]) empty_db of
      (res, db) \<Rightarrow> res = Upload_failed RangeError \<and> status_code res = 500 \<and> db = empty_db)"
  by code_simp

section \<open>Amounts (C4)\<close>




section \<open>Blank merchants (C5)\<close>




section \<open>A failed insert (C6)\<close>

text \<open>
  C6. When the table answers the bulk insert of an upload with an error, the upload
  as a whole fails: the answer is the 500 of \<^verbatim>\<open>Database insertion failed.\<close>, which
  carries no count of new records, no row is stored, and the insert was sent once,
  not again.
\<close>

theorem failed_insert_fails_upload:
  assumes "insert_error db" and "upload engine file db = (res, db')"
    and "filter is_insert (issued db db') \<noteq> []"
  shows "res = Upload_failed (Error ''Database insertion failed.'') \<and> status_code res = 500
       \<and> table db' = table db \<and> length (filter is_insert (issued db db')) = 1"
  using assms
  by (auto simp: upload_def select_hash_in_def insert_rows_def issued_def Let_def
      split: option.splits sum.splits if_splits)

theorem failed_insert_fails_upload_witness:
  "fst (upload (slash_date_engine 0) (Some ten_rows) failing_insert_db)
     = Upload_failed (Error ''Database insertion failed.'')
   \<and> table (snd (upload (slash_date_engine 0) (Some ten_rows) failing_insert_db)) = []
   \<and> length (filter is_insert (issued failing_insert_db
        (snd (upload (slash_date_engine 0) (Some ten_rows) failing_insert_db)))) = 1"
proof -
  have fails: "insert_error failing_insert_db"
    by (simp add: failing_insert_db_def)
  have sent: "filter is_insert (issued failing_insert_db
        (snd (upload (slash_date_engine 0) (Some ten_rows) failing_insert_db))) \<noteq> []"
    by code_simp
  have empty: "table failing_insert_db = []"
    by (simp add: failing_insert_db_def empty_db_def)
  have run: "upload (slash_date_engine 0) (Some ten_rows) failing_insert_db
             = (fst (upload (slash_date_engine 0) (Some ten_rows) failing_insert_db),
                snd (upload (slash_date_engine 0) (Some ten_rows) failing_insert_db))"
    by simp
  from failed_insert_fails_upload [OF fails run sent]
  show ?thesis by (simp add: empty)
qed

section \<open>Status and cost center (C7)\<close>



section \<open>A missing account (C8)\<close>

text \<open>
  C8. A row without an account (the column is missing, so the cell reads
  \<^verbatim>\<open>undefined\<close>, or the cell is empty) is not rejected for it: with a valid date and
  an amount that is a number it gives a record, the account of the record is the label
  \<^verbatim>\<open>Default\<close>, and its hash is taken over that label.
\<close>

theorem missing_account_defaults:
  assumes "\<not> truthy (field r ''Account'')"
    and "new_Date engine (field r ''Date'') = Some d"
    and "\<not> isNaN (parseFloat (js_or (field r ''Amount'') (field r ''Debit'')))"
  shows "\<exists>t. normalizedData engine [r] = Inr [t] \<and> account t = Str ''Default''
           \<and> hash t = createTransactionHash
                (t\<lparr>date := field r ''Date'', account := Str ''Default''\<rparr>)"
  using assms
  by (simp add: normalizedData_def normalize_row_def js_or_def createTransactionHash_def)

theorem missing_account_defaults_witness:
  "field no_account_row ''Account'' = Undefined
   \<and> (\<exists>t. normalizedData (slash_date_engine 0) [no_account_row] = Inr [t]
          \<and> account t = Str ''Default''
          \<and> hash t = createTransactionHash
               (t\<lparr>date := field no_account_row ''Date'', account := Str ''Default''\<rparr>))"
proof -
  have missing: "field no_account_row ''Account'' = Undefined"
    by (simp add: field_def no_account_row_def)
  have day: "new_Date (slash_date_engine 0) (field no_account_row ''Date'') = Some 1704412800000"
    by (simp add: field_def no_account_row_def Date_parse_def parse_iso_coffee)
  have "\<not> isNaN (parseFloat (Num (Dec (- 3) 0)))" by code_simp
  then have number: "\<not> isNaN (parseFloat (js_or (field no_account_row ''Amount'')
                                                (field no_account_row ''Debit'')))"
    by (simp add: field_def no_account_row_def js_or_def)
  from missing_account_defaults [OF _ day number] missing show ?thesis
    by simp
qed

section \<open>The identity hash is a function of four fields (C9)\<close>

text \<open>
  C9. The identity hash is deterministic: two objects with equal date, merchant, amount
  and account get the same hash, whatever else they carry (status, cost center,
  identifier) and wherever they stand in a batch.
\<close>

theorem createTransactionHash_deterministic:
  fixes a :: "'a transaction_scheme" and b :: "'b transaction_scheme"
  assumes "date a = date b" and "merchant a = merchant b"
    and "amount a = amount b" and "account a = account b"
  shows "createTransactionHash a = createTransactionHash b"
  using assms by (simp add: createTransactionHash_def)

theorem createTransactionHash_deterministic_witness:
  "createTransactionHash coffee_record = createTransactionHash coffee_stored"
  using createTransactionHash_deterministic [of coffee_record coffee_stored]
  by (simp add: coffee_record_def coffee_stored_def)

section \<open>Amount or Debit (C10)\<close>



end
